theory Spec2Isabelle
  imports Main
begin

section \<open>Go errors\<close>

text \<open>
  A Go \<^verbatim>\<open>error\<close> value. \<open>Errorf prefix cause\<close> is the value of
  \<^verbatim>\<open>fmt.Errorf(prefix + "%w", cause)\<close>: its message is the prefix followed by the
  message of the cause, and \<^verbatim>\<open>errors.Unwrap\<close> gives the cause back. \<open>PathError\<close> is
  \<^verbatim>\<open>*fs.PathError\<close>, the error type of \<^verbatim>\<open>os.Stat\<close>. The other constructors are
  the causes that the external collaborators report.
\<close>

datatype go_error =
    ErrNotExist
  | ErrPermission
  | ErrorString string
  | PathError string string go_error
  | Errorf string go_error

fun Error :: "go_error \<Rightarrow> string" where
  "Error ErrNotExist = ''file does not exist''"
| "Error ErrPermission = ''permission denied''"
| "Error (ErrorString s) = s"
| "Error (PathError operation path err) = operation @ '' '' @ path @ '': '' @ Error err"
| "Error (Errorf prefix err) = prefix @ Error err"

fun Unwrap :: "go_error \<Rightarrow> go_error option" where
  "Unwrap (Errorf prefix err) = Some err"
| "Unwrap (PathError operation path err) = Some err"
| "Unwrap err = None"

text \<open>
  \<^verbatim>\<open>os.IsNotExist(err)\<close> of the Go standard library: false on \<^verbatim>\<open>nil\<close>, and
  otherwise it looks through one \<^verbatim>\<open>PathError\<close> (not through \<^verbatim>\<open>%w\<close> wrapping).
\<close>

fun underlyingError :: "go_error \<Rightarrow> go_error" where
  "underlyingError (PathError operation path err) = err"
| "underlyingError err = err"

fun IsNotExist :: "go_error option \<Rightarrow> bool" where
  "IsNotExist None = False"
| "IsNotExist (Some err) = (underlyingError err = ErrNotExist)"

section \<open>Time\<close>

text \<open>
  A \<^verbatim>\<open>time.Time\<close> is an instant, counted in nanoseconds; a \<^verbatim>\<open>time.Duration\<close> is an
  \<^verbatim>\<open>int64\<close> count of nanoseconds. \<^verbatim>\<open>t.Sub(u)\<close> is the difference, and where the
  difference does not fit into 64 bits it is the largest or the smallest duration.
\<close>

type_synonym Time = int
type_synonym Duration = int

definition minDuration :: Duration where
  "minDuration = - (2 ^ 63)"

definition maxDuration :: Duration where
  "maxDuration = 2 ^ 63 - 1"

definition Nanosecond :: Duration where
  "Nanosecond = 1"

definition Microsecond :: Duration where
  "Microsecond = 1000 * Nanosecond"

definition Millisecond :: Duration where
  "Millisecond = 1000 * Microsecond"

definition Second :: Duration where
  "Second = 1000 * Millisecond"

definition Minute :: Duration where
  "Minute = 60 * Second"

definition Time_Sub :: "Time \<Rightarrow> Time \<Rightarrow> Duration" where
  "Time_Sub t u =
     (let d = t - u
      in if d < minDuration then minDuration
         else if maxDuration < d then maxDuration
         else d)"

text \<open>\<^verbatim>\<open>ctx.Deadline()\<close> returns \<^verbatim>\<open>(deadline, ok)\<close>: \<open>Some deadline\<close> when ok.\<close>

record Context =
  Deadline :: "Time option"

section \<open>The external server's types\<close>

text \<open>
  Values of the wrapped server's packages that this layer only passes on are opaque
  references, told apart by a number.
\<close>

datatype SQL = SQLRef nat
datatype Authorization = AuthorizationRef nat
datatype Logger = LoggerRef nat
datatype Authorizer = AuthorizerRef nat
datatype ClaimMapper = ClaimMapperRef nat
datatype InterruptCh = InterruptChRef nat
datatype TLSConfig = TLSConfigRef nat
datatype ClientInterceptor = ClientInterceptorRef nat

text \<open>The fields of \<^verbatim>\<open>config.Config\<close> that \<^verbatim>\<open>NewServer\<close> reads.\<close>

record DataStore =
  SQL :: "SQL option"

record Persistence =
  DataStores :: "string \<rightharpoonup> DataStore"

record ClusterMetadata =
  CurrentClusterName :: string

record Global =
  Authorization :: Authorization

record PublicClient =
  PublicClient_HostPort :: string

record ServerConfig =
  Global :: Global
  Persistence :: Persistence
  ClusterMetadata :: ClusterMetadata
  PublicClient :: PublicClient

text \<open>\<^verbatim>\<open>sqlite.NewNamespaceConfig(clusterName, namespace, global)\<close>.\<close>

datatype NamespaceConfig = NewNamespaceConfig string string bool

datatype TemporalServices = Services
datatype DynamicConfigClient = NewNoopClient

text \<open>The options of \<^verbatim>\<open>temporal.NewServer\<close>, one constructor for each.\<close>

datatype TemporalServerOption =
    temporal_WithConfig ServerConfig
  | temporal_ForServices TemporalServices
  | temporal_WithLogger Logger
  | temporal_WithAuthorizer Authorizer
  | temporal_WithClaimMapper "ServerConfig \<Rightarrow> ClaimMapper"
  | temporal_WithDynamicConfigClient DynamicConfigClient
  | temporal_InterruptOn InterruptCh

datatype TemporalServer = temporal_NewServer "TemporalServerOption list"

section \<open>The configuration model and the option combinators\<close>

text \<open>\<^verbatim>\<open>liteconfig.Config\<close>: the fields that the facade and its options use.\<close>

record Config =
  Ephemeral :: bool
  DatabaseFilePath :: string
  FrontendPort :: int
  DynamicPorts :: bool
  Namespaces :: "string list"
  Logger :: Logger
  InterruptOn :: "TemporalServerOption option"

text \<open>
  A \<^verbatim>\<open>ServerOption\<close> is a value with the one method \<^verbatim>\<open>apply(*liteconfig.Config)\<close>;
  its only implementation holds the mutation, here a function from the configuration
  to the updated one.
\<close>

datatype ServerOption = applyFuncContainer (applyInternal: "Config \<Rightarrow> Config")

definition newApplyFuncContainer :: "(Config \<Rightarrow> Config) \<Rightarrow> ServerOption" where
  "newApplyFuncContainer f = applyFuncContainer f"

definition apply_option :: "ServerOption \<Rightarrow> Config \<Rightarrow> Config" where
  "apply_option fso cfg = applyInternal fso cfg"

definition WithLogger :: "Logger \<Rightarrow> ServerOption" where
  "WithLogger logger = newApplyFuncContainer (\<lambda>cfg. cfg\<lparr>Logger := logger\<rparr>)"

definition WithDatabaseFilePath :: "string \<Rightarrow> ServerOption" where
  "WithDatabaseFilePath filepath =
     newApplyFuncContainer (\<lambda>cfg. cfg\<lparr>Ephemeral := False, DatabaseFilePath := filepath\<rparr>)"

definition WithPersistenceDisabled :: ServerOption where
  "WithPersistenceDisabled = newApplyFuncContainer (\<lambda>cfg. cfg\<lparr>Ephemeral := True\<rparr>)"

definition WithFrontendPort :: "int \<Rightarrow> ServerOption" where
  "WithFrontendPort port = newApplyFuncContainer (\<lambda>cfg. cfg\<lparr>FrontendPort := port\<rparr>)"

definition WithDynamicPorts :: ServerOption where
  "WithDynamicPorts = newApplyFuncContainer (\<lambda>cfg. cfg\<lparr>DynamicPorts := True\<rparr>)"

definition WithNamespaces :: "string list \<Rightarrow> ServerOption" where
  "WithNamespaces namespaces =
     newApplyFuncContainer (\<lambda>cfg. cfg\<lparr>Namespaces := Namespaces cfg @ namespaces\<rparr>)"

definition WithInterruptOn :: "InterruptCh \<Rightarrow> ServerOption" where
  "WithInterruptOn interruptCh =
     newApplyFuncContainer
       (\<lambda>cfg. let option = temporal_InterruptOn interruptCh
              in cfg\<lparr>InterruptOn := Some option\<rparr>)"

text \<open>
  The combinators that the package exports, as calls with their arguments, and the
  option that each call returns.
\<close>

datatype documented =
    doc_WithLogger Logger
  | doc_WithDatabaseFilePath string
  | doc_WithPersistenceDisabled
  | doc_WithFrontendPort int
  | doc_WithDynamicPorts
  | doc_WithNamespaces "string list"
  | doc_WithInterruptOn InterruptCh

fun combinator :: "documented \<Rightarrow> ServerOption" where
  "combinator (doc_WithLogger logger) = WithLogger logger"
| "combinator (doc_WithDatabaseFilePath filepath) = WithDatabaseFilePath filepath"
| "combinator doc_WithPersistenceDisabled = WithPersistenceDisabled"
| "combinator (doc_WithFrontendPort port) = WithFrontendPort port"
| "combinator doc_WithDynamicPorts = WithDynamicPorts"
| "combinator (doc_WithNamespaces namespaces) = WithNamespaces namespaces"
| "combinator (doc_WithInterruptOn interruptCh) = WithInterruptOn interruptCh"

text \<open>The loop \<^verbatim>\<open>for _, opt := range opts { opt.apply(c) }\<close> of \<^verbatim>\<open>NewServer\<close>.\<close>

fun applyOptions :: "Config \<Rightarrow> ServerOption list \<Rightarrow> Config" where
  "applyOptions c [] = c"
| "applyOptions c (opt # opts) = applyOptions (apply_option opt c) opts"

section \<open>Server construction\<close>

text \<open>
  What \<^verbatim>\<open>NewServer\<close> calls outside this file. \<open>NewDefaultConfig\<close> and \<open>Convert\<close> are
  the functions of the package \<^verbatim>\<open>liteconfig\<close>, and \<open>PersistenceStoreName\<close> its
  constant; \<open>Stat\<close> is the error result of \<^verbatim>\<open>os.Stat\<close>; the rest are the functions
  of the wrapped server's packages. \<^verbatim>\<open>NewServer\<close> calls each of them at most once,
  so one result for each argument describes a run.
\<close>

record externals =
  NewDefaultConfig :: "go_error + Config"
  Convert :: "Config \<Rightarrow> ServerConfig"
  PersistenceStoreName :: string
  Stat :: "string \<Rightarrow> go_error option"
  SetupSchema :: "SQL option \<Rightarrow> go_error option"
  CreateNamespaces :: "SQL option \<Rightarrow> NamespaceConfig list \<Rightarrow> go_error option"
  GetAuthorizerFromConfig :: "Authorization \<Rightarrow> go_error + Authorizer"
  GetClaimMapperFromConfig :: "Authorization \<Rightarrow> Logger \<Rightarrow> go_error + ClaimMapper"

text \<open>The calls on the file system and on the persistence store, in the order made.\<close>

datatype event =
    CallStat string
  | CallSetupSchema "SQL option"
  | CallCreateNamespaces "SQL option" "NamespaceConfig list"

record Server =
  internal :: TemporalServer
  frontendHostPort :: string
  config :: Config

text \<open>
  \<^verbatim>\<open>cfg.Persistence.DataStores[liteconfig.PersistenceStoreName].SQL\<close>: a missing key
  gives the zero \<^verbatim>\<open>DataStore\<close>, whose \<^verbatim>\<open>SQL\<close> pointer is nil.
\<close>

definition sqlConfigOf :: "externals \<Rightarrow> ServerConfig \<Rightarrow> SQL option" where
  "sqlConfigOf X cfg =
     (case DataStores (Persistence cfg) (PersistenceStoreName X) of
        None \<Rightarrow> None
      | Some ds \<Rightarrow> SQL ds)"

text \<open>
  The block \<^verbatim>\<open>// Apply migrations if file does not already exist\<close> of
  \<^verbatim>\<open>NewServer\<close>: the error it returns with, if any, and the calls it makes.
\<close>

definition applyMigrations :: "externals \<Rightarrow> Config \<Rightarrow> SQL option \<Rightarrow> go_error option \<times> event list" where
  "applyMigrations X c sqlConfig =
     (if Ephemeral c then
        (case SetupSchema X sqlConfig of
           Some err \<Rightarrow> (Some (Errorf ''error setting up schema: '' err), [CallSetupSchema sqlConfig])
         | None \<Rightarrow> (None, [CallSetupSchema sqlConfig]))
      else if IsNotExist (Stat X (DatabaseFilePath c)) then
        (case SetupSchema X sqlConfig of
           Some err \<Rightarrow>
             (Some (Errorf ''error setting up schema: '' err),
              [CallStat (DatabaseFilePath c), CallSetupSchema sqlConfig])
         | None \<Rightarrow> (None, [CallStat (DatabaseFilePath c), CallSetupSchema sqlConfig]))
      else (None, [CallStat (DatabaseFilePath c)]))"

text \<open>
  The loop of the block \<^verbatim>\<open>// Pre-create namespaces\<close>: it appends one descriptor for
  each name to the slice \<open>namespaces\<close>.
\<close>

fun namespaceConfigs :: "NamespaceConfig list \<Rightarrow> string \<Rightarrow> string list \<Rightarrow> NamespaceConfig list" where
  "namespaceConfigs namespaces clusterName [] = namespaces"
| "namespaceConfigs namespaces clusterName (ns # rest) =
     namespaceConfigs (namespaces @ [NewNamespaceConfig clusterName ns False]) clusterName rest"

definition preCreateNamespaces ::
  "externals \<Rightarrow> Config \<Rightarrow> ServerConfig \<Rightarrow> SQL option \<Rightarrow> go_error option \<times> event list" where
  "preCreateNamespaces X c cfg sqlConfig =
     (let namespaces = namespaceConfigs [] (CurrentClusterName (ClusterMetadata cfg)) (Namespaces c)
      in case CreateNamespaces X sqlConfig namespaces of
           Some err \<Rightarrow>
             (Some (Errorf ''error creating namespaces: '' err),
              [CallCreateNamespaces sqlConfig namespaces])
         | None \<Rightarrow> (None, [CallCreateNamespaces sqlConfig namespaces]))"

text \<open>
  \<^verbatim>\<open>NewServer(opts...)\<close>: the server or the error, and the calls made. A \<^verbatim>\<open>nil\<close>
  server with an error is \<open>Inl\<close> of the error.
\<close>

definition NewServer :: "externals \<Rightarrow> ServerOption list \<Rightarrow> (go_error + Server) \<times> event list" where
  "NewServer X opts =
     (case NewDefaultConfig X of
        Inl err \<Rightarrow> (Inl err, [])
      | Inr c0 \<Rightarrow>
          (let c = applyOptions c0 opts;
               cfg = Convert X c;
               sqlConfig = sqlConfigOf X cfg;
               (schemaErr, calls1) = applyMigrations X c sqlConfig
           in case schemaErr of
                Some err \<Rightarrow> (Inl err, calls1)
              | None \<Rightarrow>
                  (let (namespaceErr, calls2) = preCreateNamespaces X c cfg sqlConfig
                   in case namespaceErr of
                        Some err \<Rightarrow> (Inl err, calls1 @ calls2)
                      | None \<Rightarrow>
                          (case GetAuthorizerFromConfig X (Authorization (Global cfg)) of
                             Inl err \<Rightarrow>
                               (Inl (Errorf ''unable to instantiate authorizer: '' err),
                                calls1 @ calls2)
                           | Inr authorizer \<Rightarrow>
                               (case GetClaimMapperFromConfig X (Authorization (Global cfg)) (Logger c) of
                                  Inl err \<Rightarrow>
                                    (Inl (Errorf ''unable to instantiate claim mapper: '' err),
                                     calls1 @ calls2)
                                | Inr claimMapper \<Rightarrow>
                                    (let serverOpts =
                                           [temporal_WithConfig cfg,
                                            temporal_ForServices Services,
                                            temporal_WithLogger (Logger c),
                                            temporal_WithAuthorizer authorizer,
                                            temporal_WithClaimMapper (\<lambda>cfg. claimMapper),
                                            temporal_WithDynamicConfigClient NewNoopClient];
                                         serverOpts =
                                           (case InterruptOn c of
                                              Some interruptOn \<Rightarrow> serverOpts @ [interruptOn]
                                            | None \<Rightarrow> serverOpts)
                                     in (Inr \<lparr>internal = temporal_NewServer serverOpts,
                                              frontendHostPort = PublicClient_HostPort (PublicClient cfg),
                                              config = c\<rparr>,
                                         calls1 @ calls2)))))))"

section \<open>Client construction\<close>

text \<open>
  \<^verbatim>\<open>client.ConnectionOptions\<close> and \<^verbatim>\<open>client.Options\<close> of the client library. The
  fields of \<^verbatim>\<open>client.Options\<close> not listed here are the extension of the record.
\<close>

record ConnectionOptions =
  TLS :: "TLSConfig option"
  Authority :: string
  DisableHealthCheck :: bool
  HealthCheckAttemptTimeout :: Duration
  HealthCheckTimeout :: Duration

record Options =
  HostPort :: string
  Namespace :: string
  ConnectionOptions :: ConnectionOptions
  Interceptors :: "ClientInterceptor list"

text \<open>\<open>now\<close> is the value that \<^verbatim>\<open>time.Now()\<close> returns when the function reads the clock.\<close>

definition timeoutFromContext :: "Time \<Rightarrow> Context \<Rightarrow> Duration \<Rightarrow> Duration" where
  "timeoutFromContext now ctx defaultTimeout =
     (case Deadline ctx of
        Some deadline \<Rightarrow> Time_Sub deadline now
      | None \<Rightarrow> defaultTimeout)"

text \<open>
  \<open>client_NewClient\<close> is \<^verbatim>\<open>client.NewClient\<close> of the client library. The struct
  literal leaves the other fields of the connection options at their zero values.
\<close>

definition NewClientWithOptions ::
  "('a Options_scheme \<Rightarrow> 'r) \<Rightarrow> Time \<Rightarrow> Server \<Rightarrow> Context \<Rightarrow> 'a Options_scheme \<Rightarrow> 'r" where
  "NewClientWithOptions client_NewClient now s ctx options =
     (let options = options\<lparr>HostPort := frontendHostPort s\<rparr>;
          options = options\<lparr>ConnectionOptions :=
                      \<lparr>TLS = None,
                       Authority = [],
                       DisableHealthCheck = False,
                       HealthCheckAttemptTimeout = 0,
                       HealthCheckTimeout = timeoutFromContext now ctx Minute\<rparr>\<rparr>
      in client_NewClient options)"

section \<open>Observations on a run\<close>

fun isStat :: "event \<Rightarrow> bool" where
  "isStat (CallStat path) = True"
| "isStat e = False"

fun isSetupSchema :: "event \<Rightarrow> bool" where
  "isSetupSchema (CallSetupSchema sqlConfig) = True"
| "isSetupSchema e = False"

fun isCreateNamespaces :: "event \<Rightarrow> bool" where
  "isCreateNamespaces (CallCreateNamespaces sqlConfig namespaces) = True"
| "isCreateNamespaces e = False"

text \<open>
  A result is fatal with a step and a cause when there is no server, the error
  unwraps to the cause, and its message is the step's text before the cause's message.
\<close>

definition fatalWith :: "go_error + Server \<Rightarrow> string \<Rightarrow> go_error \<Rightarrow> bool" where
  "fatalWith result step cause =
     (case result of
        Inl err \<Rightarrow> Unwrap err = Some cause \<and> Error err = step @ Error cause
      | Inr s \<Rightarrow> False)"







fun appendsNamespaces :: "documented \<Rightarrow> string list" where
  "appendsNamespaces (doc_WithNamespaces namespaces) = namespaces"
| "appendsNamespaces d = []"


text \<open>
  The persistence mode that \<^verbatim>\<open>NewServer\<close> takes a configuration to be in: the
  in-memory store when \<open>Ephemeral\<close> is set, and otherwise the file at
  \<open>DatabaseFilePath\<close>. A configuration is in exactly one of the two, and the path
  belongs to the file-backed one only.
\<close>

datatype PersistenceMode = InMemory | FileBacked string

definition persistenceMode :: "Config \<Rightarrow> PersistenceMode" where
  "persistenceMode c = (if Ephemeral c then InMemory else FileBacked (DatabaseFilePath c))"

text \<open>The mode that a documented combinator asks for, given the mode before it.\<close>

fun requestedMode :: "PersistenceMode \<Rightarrow> documented \<Rightarrow> PersistenceMode" where
  "requestedMode m (doc_WithDatabaseFilePath filepath) = FileBacked filepath"
| "requestedMode m doc_WithPersistenceDisabled = InMemory"
| "requestedMode m d = m"

text \<open>
  The part of a configuration that means something: its persistence mode and the
  fields other than the persistence flag and the path. Two configurations have the same
  meaningful part when they are equal, or are both ephemeral and differ in the
  database file path only.
\<close>

definition meaningful ::
  "Config \<Rightarrow> PersistenceMode \<times> int \<times> bool \<times> string list \<times> Logger \<times> TemporalServerOption option" where
  "meaningful c =
     (persistenceMode c, FrontendPort c, DynamicPorts c, Namespaces c, Logger c, InterruptOn c)"

text \<open>What a built server shows of its configuration: the meaningful part.\<close>

definition built :: "Server \<Rightarrow> TemporalServer \<times> string \<times>
    PersistenceMode \<times> int \<times> bool \<times> string list \<times> Logger \<times> TemporalServerOption option" where
  "built s = (internal s, frontendHostPort s, meaningful (config s))"

section \<open>Sample surroundings\<close>

definition sampleConfig :: Config where
  "sampleConfig =
     \<lparr>Ephemeral = False, DatabaseFilePath = ''default.db'', FrontendPort = 7233,
      DynamicPorts = False, Namespaces = [''default''], Logger = LoggerRef 0,
      InterruptOn = None\<rparr>"

definition sampleConvert :: "Config \<Rightarrow> ServerConfig" where
  "sampleConvert c =
     \<lparr>Global = \<lparr>Authorization = AuthorizationRef 0\<rparr>,
      Persistence = \<lparr>DataStores = [''sqlite-default'' \<mapsto> \<lparr>SQL = Some (SQLRef 0)\<rparr>]\<rparr>,
      ClusterMetadata = \<lparr>CurrentClusterName = ''active''\<rparr>,
      PublicClient = \<lparr>PublicClient_HostPort = ''127.0.0.1:7233''\<rparr>\<rparr>"

text \<open>Every collaborator succeeds, and no database file exists yet.\<close>

definition sampleExternals :: externals where
  "sampleExternals =
     \<lparr>NewDefaultConfig = Inr sampleConfig,
      Convert = sampleConvert,
      PersistenceStoreName = ''sqlite-default'',
      Stat = (\<lambda>path. Some (PathError ''stat'' path ErrNotExist)),
      SetupSchema = (\<lambda>sqlConfig. None),
      CreateNamespaces = (\<lambda>sqlConfig namespaces. None),
      GetAuthorizerFromConfig = (\<lambda>authorization. Inr (AuthorizerRef 0)),
      GetClaimMapperFromConfig = (\<lambda>authorization logger. Inr (ClaimMapperRef 0))\<rparr>"

text \<open>The same, with the database file in place.\<close>

definition existingFileExternals :: externals where
  "existingFileExternals = sampleExternals\<lparr>Stat := (\<lambda>path. None)\<rparr>"

text \<open>The same, with a directory that may not be searched.\<close>

definition deniedExternals :: externals where
  "deniedExternals = sampleExternals\<lparr>Stat := (\<lambda>path. Some (PathError ''stat'' path ErrPermission))\<rparr>"

text \<open>The same as the first, with a store that refuses the schema.\<close>

definition schemaFailsExternals :: externals where
  "schemaFailsExternals = sampleExternals\<lparr>SetupSchema := (\<lambda>sqlConfig. Some (ErrorString ''disk full''))\<rparr>"

text \<open>The same as the first, with a store that refuses the namespaces.\<close>

definition namespacesFailExternals :: externals where
  "namespacesFailExternals =
     sampleExternals\<lparr>CreateNamespaces := (\<lambda>sqlConfig namespaces. Some (ErrorString ''locked''))\<rparr>"

text \<open>The same as the first, with an authorization section that names no known authorizer.\<close>

definition authorizerFailsExternals :: externals where
  "authorizerFailsExternals =
     sampleExternals\<lparr>GetAuthorizerFromConfig :=
       (\<lambda>authorization. Inl (ErrorString ''unknown authorizer''))\<rparr>"

text \<open>The same as the first, with an authorization section that names no known claim mapper.\<close>

definition claimMapperFailsExternals :: externals where
  "claimMapperFailsExternals =
     sampleExternals\<lparr>GetClaimMapperFromConfig :=
       (\<lambda>authorization logger. Inl (ErrorString ''unknown claim mapper''))\<rparr>"

text \<open>A conversion that names the database after the file path, unless ephemeral.\<close>

definition pathConvert :: "Config \<Rightarrow> ServerConfig" where
  "pathConvert c =
     \<lparr>Global = \<lparr>Authorization = AuthorizationRef 0\<rparr>,
      Persistence =
        \<lparr>DataStores =
           [''sqlite-default'' \<mapsto>
              \<lparr>SQL = Some (SQLRef (if Ephemeral c then 0 else length (DatabaseFilePath c)))\<rparr>]\<rparr>,
      ClusterMetadata = \<lparr>CurrentClusterName = ''active''\<rparr>,
      PublicClient = \<lparr>PublicClient_HostPort = ''127.0.0.1:7233''\<rparr>\<rparr>"

text \<open>The sample configuration, ephemeral, with a database file path left in it.\<close>

definition ephemeralConfig :: "string \<Rightarrow> Config" where
  "ephemeralConfig path = sampleConfig\<lparr>Ephemeral := True, DatabaseFilePath := path\<rparr>"

definition sampleServer :: Server where
  "sampleServer =
     \<lparr>internal = temporal_NewServer [],
      frontendHostPort = ''127.0.0.1:7233'',
      config = sampleConfig\<rparr>"

section \<open>Auxiliary facts\<close>

lemmas option_defs =
  apply_option_def newApplyFuncContainer_def WithLogger_def WithDatabaseFilePath_def
  WithPersistenceDisabled_def WithFrontendPort_def WithDynamicPorts_def WithNamespaces_def
  WithInterruptOn_def

lemmas sample_defs =
  sampleConfig_def sampleConvert_def sampleExternals_def existingFileExternals_def
  deniedExternals_def schemaFailsExternals_def namespacesFailExternals_def
  authorizerFailsExternals_def claimMapperFailsExternals_def sampleServer_def sqlConfigOf_def


lemma namespaceConfigs_map:
  "namespaceConfigs acc clusterName names =
     acc @ map (\<lambda>ns. NewNamespaceConfig clusterName ns False) names"
  by (induction names arbitrary: acc) simp_all

lemma snd_applyMigrations:
  "snd (applyMigrations X c sqlConfig) =
     (if Ephemeral c then [CallSetupSchema sqlConfig]
      else if IsNotExist (Stat X (DatabaseFilePath c))
        then [CallStat (DatabaseFilePath c), CallSetupSchema sqlConfig]
        else [CallStat (DatabaseFilePath c)])"
  by (simp add: applyMigrations_def split: option.splits)

lemma fst_applyMigrations:
  "fst (applyMigrations X c sqlConfig) =
     (if Ephemeral c \<or> IsNotExist (Stat X (DatabaseFilePath c))
      then map_option (Errorf ''error setting up schema: '') (SetupSchema X sqlConfig)
      else None)"
  by (simp add: applyMigrations_def split: option.splits)

lemma snd_preCreateNamespaces:
  "snd (preCreateNamespaces X c cfg sqlConfig) =
     [CallCreateNamespaces sqlConfig
        (map (\<lambda>ns. NewNamespaceConfig (CurrentClusterName (ClusterMetadata cfg)) ns False)
           (Namespaces c))]"
  by (simp add: preCreateNamespaces_def namespaceConfigs_map Let_def split: option.splits)

lemma fst_preCreateNamespaces:
  "fst (preCreateNamespaces X c cfg sqlConfig) =
     map_option (Errorf ''error creating namespaces: '')
       (CreateNamespaces X sqlConfig
          (map (\<lambda>ns. NewNamespaceConfig (CurrentClusterName (ClusterMetadata cfg)) ns False)
             (Namespaces c)))"
  by (simp add: preCreateNamespaces_def namespaceConfigs_map Let_def split: option.splits)

lemma snd_NewServer:
  assumes "NewDefaultConfig X = Inr c0"
  shows "snd (NewServer X opts) =
     (let c = applyOptions c0 opts; cfg = Convert X c; sqlConfig = sqlConfigOf X cfg
      in if fst (applyMigrations X c sqlConfig) = None
         then snd (applyMigrations X c sqlConfig) @ snd (preCreateNamespaces X c cfg sqlConfig)
         else snd (applyMigrations X c sqlConfig))"
  using assms
  by (simp add: NewServer_def Let_def case_prod_beta split: option.splits sum.splits)

lemma fst_NewServer:
  assumes "NewDefaultConfig X = Inr c0"
  shows "fst (NewServer X opts) =
     (let c = applyOptions c0 opts; cfg = Convert X c; sqlConfig = sqlConfigOf X cfg
      in case fst (applyMigrations X c sqlConfig) of
           Some err \<Rightarrow> Inl err
         | None \<Rightarrow>
            (case fst (preCreateNamespaces X c cfg sqlConfig) of
               Some err \<Rightarrow> Inl err
             | None \<Rightarrow>
                (case GetAuthorizerFromConfig X (Authorization (Global cfg)) of
                   Inl err \<Rightarrow> Inl (Errorf ''unable to instantiate authorizer: '' err)
                 | Inr authorizer \<Rightarrow>
                    (case GetClaimMapperFromConfig X (Authorization (Global cfg)) (Logger c) of
                       Inl err \<Rightarrow> Inl (Errorf ''unable to instantiate claim mapper: '' err)
                     | Inr claimMapper \<Rightarrow>
                        Inr \<lparr>internal = temporal_NewServer
                               ([temporal_WithConfig cfg,
                                 temporal_ForServices Services,
                                 temporal_WithLogger (Logger c),
                                 temporal_WithAuthorizer authorizer,
                                 temporal_WithClaimMapper (\<lambda>cfg. claimMapper),
                                 temporal_WithDynamicConfigClient NewNoopClient]
                                @ (case InterruptOn c of
                                     Some interruptOn \<Rightarrow> [interruptOn]
                                   | None \<Rightarrow> [])),
                             frontendHostPort = PublicClient_HostPort (PublicClient cfg),
                             config = c\<rparr>))))"
  using assms
  by (simp add: NewServer_def Let_def case_prod_beta split: option.splits sum.splits)

text \<open>The run depends on the result of the file lookup through \<open>IsNotExist\<close> only.\<close>

lemma applyMigrations_Stat_cong:
  assumes "IsNotExist (f (DatabaseFilePath c)) = IsNotExist (Stat X (DatabaseFilePath c))"
  shows "applyMigrations (X\<lparr>Stat := f\<rparr>) c sqlConfig = applyMigrations X c sqlConfig"
  using assms by (simp add: applyMigrations_def)

lemma preCreateNamespaces_Stat:
  "preCreateNamespaces (X\<lparr>Stat := f\<rparr>) c cfg sqlConfig = preCreateNamespaces X c cfg sqlConfig"
  by (simp add: preCreateNamespaces_def)

lemma sqlConfigOf_Stat:
  "sqlConfigOf (X\<lparr>Stat := f\<rparr>) cfg = sqlConfigOf X cfg"
  by (simp add: sqlConfigOf_def)

lemma NewServer_Stat_cong:
  assumes "NewDefaultConfig X = Inr c0"
    and "IsNotExist (f (DatabaseFilePath (applyOptions c0 opts))) =
         IsNotExist (Stat X (DatabaseFilePath (applyOptions c0 opts)))"
  shows "NewServer (X\<lparr>Stat := f\<rparr>) opts = NewServer X opts"
proof -
  have "applyMigrations (X\<lparr>Stat := f\<rparr>) (applyOptions c0 opts) sqlConfig =
        applyMigrations X (applyOptions c0 opts) sqlConfig" for sqlConfig
    using assms(2) by (rule applyMigrations_Stat_cong)
  then show ?thesis
    using assms(1)
    by (simp add: NewServer_def Let_def case_prod_beta preCreateNamespaces_Stat sqlConfigOf_Stat
        split: option.splits sum.splits)
qed





lemma persistenceMode_step:
  "persistenceMode (apply_option (combinator d) c) = requestedMode (persistenceMode c) d"
  by (cases d) (simp_all add: persistenceMode_def option_defs Let_def)

lemma persistenceMode_documented:
  "persistenceMode (applyOptions c (map combinator ds)) = foldl requestedMode (persistenceMode c) ds"
  by (induction ds arbitrary: c) (simp_all add: persistenceMode_step)

lemma meaningful_step:
  "meaningful (apply_option (combinator d) c) =
     (requestedMode (persistenceMode c) d,
      (case d of doc_WithFrontendPort port \<Rightarrow> port | _ \<Rightarrow> FrontendPort c),
      (case d of doc_WithDynamicPorts \<Rightarrow> True | _ \<Rightarrow> DynamicPorts c),
      Namespaces c @ appendsNamespaces d,
      (case d of doc_WithLogger logger \<Rightarrow> logger | _ \<Rightarrow> Logger c),
      (case d of doc_WithInterruptOn ch \<Rightarrow> Some (temporal_InterruptOn ch) | _ \<Rightarrow> InterruptOn c))"
  by (cases d) (simp_all add: meaningful_def persistenceMode_def option_defs Let_def)

lemma meaningful_step_cong:
  assumes "meaningful c = meaningful c'"
  shows "meaningful (apply_option (combinator d) c) = meaningful (apply_option (combinator d) c')"
  using assms unfolding meaningful_step by (cases d) (simp_all add: meaningful_def)

lemma meaningful_documented_cong:
  "meaningful c = meaningful c' \<Longrightarrow>
   meaningful (applyOptions c (map combinator ds)) = meaningful (applyOptions c' (map combinator ds))"
proof (induction ds arbitrary: c c')
  case Nil
  then show ?case by simp
next
  case (Cons d ds)
  from Cons.prems
  have "meaningful (apply_option (combinator d) c) = meaningful (apply_option (combinator d) c')"
    by (rule meaningful_step_cong)
  then have "meaningful (applyOptions (apply_option (combinator d) c) (map combinator ds)) =
             meaningful (applyOptions (apply_option (combinator d) c') (map combinator ds))"
    by (rule Cons.IH)
  then show ?case
    by simp
qed

lemma applyMigrations_mode:
  "persistenceMode c = persistenceMode c' \<Longrightarrow>
   applyMigrations X c sqlConfig = applyMigrations X c' sqlConfig"
  by (auto simp add: persistenceMode_def applyMigrations_def split: if_splits option.splits)

lemma applyMigrations_default:
  "applyMigrations (X\<lparr>NewDefaultConfig := d\<rparr>) c sqlConfig = applyMigrations X c sqlConfig"
  by (simp add: applyMigrations_def)

lemma preCreateNamespaces_default:
  "preCreateNamespaces (X\<lparr>NewDefaultConfig := d\<rparr>) c cfg sqlConfig = preCreateNamespaces X c cfg sqlConfig"
  by (simp add: preCreateNamespaces_def)

lemma sqlConfigOf_default:
  "sqlConfigOf (X\<lparr>NewDefaultConfig := d\<rparr>) cfg = sqlConfigOf X cfg"
  by (simp add: sqlConfigOf_def)

lemma preCreateNamespaces_cong:
  "Namespaces c = Namespaces c' \<Longrightarrow>
   preCreateNamespaces X c cfg sqlConfig = preCreateNamespaces X c' cfg sqlConfig"
  by (simp add: preCreateNamespaces_def)

lemma NewServer_from_default:
  assumes "NewDefaultConfig X = Inr c0"
  shows "NewServer X opts = NewServer (X\<lparr>NewDefaultConfig := Inr (applyOptions c0 opts)\<rparr>) []"
  using assms
  by (simp add: NewServer_def Let_def case_prod_beta applyMigrations_default
      preCreateNamespaces_default sqlConfigOf_default split: option.splits sum.splits)

lemma NewServer_meaningful_cong:
  assumes "meaningful a = meaningful b" and "Convert X a = Convert X b"
  shows "snd (NewServer (X\<lparr>NewDefaultConfig := Inr a\<rparr>) []) =
         snd (NewServer (X\<lparr>NewDefaultConfig := Inr b\<rparr>) []) \<and>
         map_sum id built (fst (NewServer (X\<lparr>NewDefaultConfig := Inr a\<rparr>) [])) =
         map_sum id built (fst (NewServer (X\<lparr>NewDefaultConfig := Inr b\<rparr>) []))"
proof -
  have m: "applyMigrations X a sqlConfig = applyMigrations X b sqlConfig" for sqlConfig
    using assms(1) by (intro applyMigrations_mode) (simp add: meaningful_def)
  have n: "preCreateNamespaces X a cfg sqlConfig = preCreateNamespaces X b cfg sqlConfig" for cfg sqlConfig
    using assms(1) by (intro preCreateNamespaces_cong) (simp add: meaningful_def)
  have f: "Logger a = Logger b" "InterruptOn a = InterruptOn b"
    using assms(1) by (simp_all add: meaningful_def)
  show ?thesis
    by (simp add: NewServer_def Let_def case_prod_beta applyMigrations_default
        preCreateNamespaces_default sqlConfigOf_default assms m n f built_def
        split: option.splits sum.splits)
qed

lemma Time_Sub_exact:
  "minDuration \<le> t - u \<Longrightarrow> t - u \<le> maxDuration \<Longrightarrow> Time_Sub t u = t - u"
  by (simp add: Time_Sub_def)

lemma Time_Sub_upper:
  "t - u \<le> d \<Longrightarrow> minDuration \<le> d \<Longrightarrow> Time_Sub t u \<le> d"
  by (simp add: Time_Sub_def Let_def maxDuration_def minDuration_def)

lemma passed_options:
  "NewClientWithOptions client_NewClient now s ctx options =
     client_NewClient
       (options\<lparr>HostPort := frontendHostPort s,
                ConnectionOptions :=
                  \<lparr>TLS = None, Authority = [], DisableHealthCheck = False,
                   HealthCheckAttemptTimeout = 0,
                   HealthCheckTimeout = timeoutFromContext now ctx Minute\<rparr>\<rparr>)"
  by (simp add: NewClientWithOptions_def Let_def)

section \<open>Schema bootstrap\<close>

text \<open>
  Claim C1. In \<^verbatim>\<open>NewServer\<close>, once the default configuration is there and the options
  are applied, schema setup runs (once, on the SQL configuration of the converted
  configuration) whenever the configuration is ephemeral. When the configuration is
  file-backed, schema setup runs if and only if the lookup of the file at
  \<open>DatabaseFilePath\<close> reports that it does not exist, and it is skipped otherwise, in
  particular when the lookup succeeds because the file exists.
\<close>

theorem schema_setup_runs_iff:
  fixes X opts c0
  defines "c \<equiv> applyOptions c0 opts"
  defines "setupCalls \<equiv> filter isSetupSchema (snd (NewServer X opts))"
  assumes "NewDefaultConfig X = Inr c0"
  shows "(Ephemeral c \<longrightarrow> setupCalls = [CallSetupSchema (sqlConfigOf X (Convert X c))]) \<and>
         (\<not> Ephemeral c \<longrightarrow>
            (setupCalls = [CallSetupSchema (sqlConfigOf X (Convert X c))]
               \<longleftrightarrow> IsNotExist (Stat X (DatabaseFilePath c))) \<and>
            (setupCalls = [] \<longleftrightarrow> \<not> IsNotExist (Stat X (DatabaseFilePath c))) \<and>
            (Stat X (DatabaseFilePath c) = None \<longrightarrow> setupCalls = []))"
  unfolding c_def setupCalls_def
  by (auto simp add: snd_NewServer [OF assms(3)] Let_def snd_applyMigrations snd_preCreateNamespaces)

theorem schema_setup_runs_iff_witness:
  "NewDefaultConfig sampleExternals = Inr sampleConfig \<and>
   Ephemeral (applyOptions sampleConfig [WithPersistenceDisabled]) \<and>
   filter isSetupSchema (snd (NewServer sampleExternals [WithPersistenceDisabled])) =
     [CallSetupSchema (Some (SQLRef 0))] \<and>
   \<not> Ephemeral (applyOptions sampleConfig [WithDatabaseFilePath ''x.db'']) \<and>
   IsNotExist (Stat sampleExternals ''x.db'') \<and>
   filter isSetupSchema (snd (NewServer sampleExternals [WithDatabaseFilePath ''x.db''])) =
     [CallSetupSchema (Some (SQLRef 0))] \<and>
   Stat existingFileExternals ''x.db'' = None \<and>
   filter isSetupSchema (snd (NewServer existingFileExternals [WithDatabaseFilePath ''x.db''])) = []"
  using schema_setup_runs_iff [of sampleExternals sampleConfig "[WithPersistenceDisabled]"]
    schema_setup_runs_iff [of sampleExternals sampleConfig "[WithDatabaseFilePath ''x.db'']"]
    schema_setup_runs_iff [of existingFileExternals sampleConfig "[WithDatabaseFilePath ''x.db'']"]
  by (simp add: sample_defs option_defs)

text \<open>
  Claim C9. For a file-backed configuration, \<^verbatim>\<open>NewServer\<close> runs schema setup only
  when the lookup of \<open>DatabaseFilePath\<close> fails with a does-not-exist error. When the
  lookup fails with any other error, such as a refused permission, schema setup is
  skipped without a report, and construction goes on as it does when the file exists:
  the result and the calls made are those of a run in which the lookup succeeds.
\<close>

theorem stat_failure_skips_schema_setup:
  fixes X opts c0
  defines "c \<equiv> applyOptions c0 opts"
  assumes "NewDefaultConfig X = Inr c0" and "\<not> Ephemeral c"
  shows "(filter isSetupSchema (snd (NewServer X opts)) \<noteq> []
            \<longleftrightarrow> IsNotExist (Stat X (DatabaseFilePath c))) \<and>
         (Stat X (DatabaseFilePath c) = Some err \<and> \<not> IsNotExist (Some err) \<longrightarrow>
            filter isSetupSchema (snd (NewServer X opts)) = [] \<and>
            NewServer X opts = NewServer (X\<lparr>Stat := (\<lambda>path. None)\<rparr>) opts)"
proof -
  have trace: "filter isSetupSchema (snd (NewServer X opts)) =
      (if IsNotExist (Stat X (DatabaseFilePath c))
       then [CallSetupSchema (sqlConfigOf X (Convert X c))] else [])"
    using assms(3) unfolding c_def
    by (simp add: snd_NewServer [OF assms(2)] Let_def snd_applyMigrations snd_preCreateNamespaces)
  have same: "NewServer (X\<lparr>Stat := (\<lambda>path. None)\<rparr>) opts = NewServer X opts"
    if "\<not> IsNotExist (Stat X (DatabaseFilePath c))"
    using that unfolding c_def
    by (intro NewServer_Stat_cong [OF assms(2)]) simp
  show ?thesis
    using trace same by auto
qed

theorem stat_failure_skips_schema_setup_witness:
  "NewDefaultConfig deniedExternals = Inr sampleConfig \<and>
   \<not> Ephemeral (applyOptions sampleConfig [WithDatabaseFilePath ''x.db'']) \<and>
   Stat deniedExternals ''x.db'' = Some (PathError ''stat'' ''x.db'' ErrPermission) \<and>
   \<not> IsNotExist (Some (PathError ''stat'' ''x.db'' ErrPermission)) \<and>
   filter isSetupSchema (snd (NewServer deniedExternals [WithDatabaseFilePath ''x.db''])) = [] \<and>
   NewServer deniedExternals [WithDatabaseFilePath ''x.db''] =
     NewServer (deniedExternals\<lparr>Stat := (\<lambda>path. None)\<rparr>) [WithDatabaseFilePath ''x.db'']"
proof -
  let ?opts = "[WithDatabaseFilePath ''x.db'']"
  have default: "NewDefaultConfig deniedExternals = Inr sampleConfig"
    by (simp add: sample_defs)
  have path: "DatabaseFilePath (applyOptions sampleConfig ?opts) = ''x.db''"
    and backed: "\<not> Ephemeral (applyOptions sampleConfig ?opts)"
    by (simp_all add: option_defs)
  have stat: "Stat deniedExternals ''x.db'' = Some (PathError ''stat'' ''x.db'' ErrPermission)"
    by (simp add: sample_defs)
  have other: "\<not> IsNotExist (Some (PathError ''stat'' ''x.db'' ErrPermission))"
    by simp
  from stat_failure_skips_schema_setup
         [OF default backed, of "PathError ''stat'' ''x.db'' ErrPermission", unfolded path]
  have "filter isSetupSchema (snd (NewServer deniedExternals ?opts)) = [] \<and>
        NewServer deniedExternals ?opts =
          NewServer (deniedExternals\<lparr>Stat := (\<lambda>path. None)\<rparr>) ?opts"
    using stat other by blast
  with default backed stat other show ?thesis
    by blast
qed

section \<open>Namespace creation\<close>

text \<open>
  A run in which schema setup fails: \<^verbatim>\<open>NewServer\<close> returns the error after the
  lookup and the schema setup, and never calls \<^verbatim>\<open>sqlite.CreateNamespaces\<close>, although
  a namespace is configured.
\<close>

theorem namespaces_skipped_when_schema_setup_fails:
  "filter isCreateNamespaces (snd (NewServer schemaFailsExternals [WithNamespaces [''a'']])) = [] \<and>
   snd (NewServer schemaFailsExternals [WithNamespaces [''a'']]) =
     [CallStat ''default.db'', CallSetupSchema (Some (SQLRef 0))] \<and>
   fst (NewServer schemaFailsExternals [WithNamespaces [''a'']]) =
     Inl (Errorf ''error setting up schema: '' (ErrorString ''disk full''))"
  by (simp add: NewServer_def applyMigrations_def preCreateNamespaces_def sample_defs option_defs)

text \<open>
  Claim C6, amended. On every call to \<^verbatim>\<open>NewServer\<close> that has its default
  configuration and does not fail in schema setup, namespace creation is called exactly
  once, as the last call, whether schema setup ran or was skipped: on the SQL
  configuration of the converted configuration, with one descriptor for each configured
  namespace, built from the current cluster name of the converted configuration and the
  name of the namespace (and not global), in the order of the configuration.
\<close>

theorem namespaces_created_after_bootstrap:
  fixes X opts c0
  defines "c \<equiv> applyOptions c0 opts"
  defines "cfg \<equiv> Convert X c"
  assumes "NewDefaultConfig X = Inr c0"
    and "Ephemeral c \<or> IsNotExist (Stat X (DatabaseFilePath c)) \<Longrightarrow>
         SetupSchema X (sqlConfigOf X cfg) = None"
  shows "filter isCreateNamespaces (snd (NewServer X opts)) =
           [CallCreateNamespaces (sqlConfigOf X cfg)
              (map (\<lambda>ns. NewNamespaceConfig (CurrentClusterName (ClusterMetadata cfg)) ns False)
                 (Namespaces c))] \<and>
         last (snd (NewServer X opts)) =
           CallCreateNamespaces (sqlConfigOf X cfg)
              (map (\<lambda>ns. NewNamespaceConfig (CurrentClusterName (ClusterMetadata cfg)) ns False)
                 (Namespaces c))"
  using assms(4) unfolding c_def cfg_def
  by (auto simp add: snd_NewServer [OF assms(3)] Let_def snd_applyMigrations fst_applyMigrations
      snd_preCreateNamespaces)

theorem namespaces_created_after_bootstrap_witness:
  "NewDefaultConfig sampleExternals = Inr sampleConfig \<and>
   SetupSchema sampleExternals (Some (SQLRef 0)) = None \<and>
   filter isSetupSchema (snd (NewServer sampleExternals [WithNamespaces [''a'', ''b'']])) \<noteq> [] \<and>
   filter isCreateNamespaces (snd (NewServer sampleExternals [WithNamespaces [''a'', ''b'']])) =
     [CallCreateNamespaces (Some (SQLRef 0))
        [NewNamespaceConfig ''active'' ''default'' False,
         NewNamespaceConfig ''active'' ''a'' False,
         NewNamespaceConfig ''active'' ''b'' False]] \<and>
   filter isSetupSchema (snd (NewServer existingFileExternals [WithNamespaces [''a'', ''b'']])) = [] \<and>
   filter isCreateNamespaces (snd (NewServer existingFileExternals [WithNamespaces [''a'', ''b'']])) =
     [CallCreateNamespaces (Some (SQLRef 0))
        [NewNamespaceConfig ''active'' ''default'' False,
         NewNamespaceConfig ''active'' ''a'' False,
         NewNamespaceConfig ''active'' ''b'' False]]"
  using namespaces_created_after_bootstrap [of sampleExternals sampleConfig "[WithNamespaces [''a'', ''b'']]"]
    namespaces_created_after_bootstrap [of existingFileExternals sampleConfig "[WithNamespaces [''a'', ''b'']]"]
  by (simp add: sample_defs option_defs snd_NewServer [of _ sampleConfig] Let_def
      snd_applyMigrations fst_applyMigrations snd_preCreateNamespaces)

section \<open>Failures of construction\<close>

text \<open>
  Claim C7. A failure of schema setup, of namespace creation, of the construction of
  the authorizer or of the construction of the claim mapper is fatal: \<^verbatim>\<open>NewServer\<close>
  returns no server and an error. The error wraps the cause (it unwraps to it), and its
  message starts with a text that belongs to the failed step alone, followed by the
  message of the cause.
\<close>

theorem failures_are_fatal_and_identified:
  fixes X opts c0 cause
  defines "c \<equiv> applyOptions c0 opts"
  defines "cfg \<equiv> Convert X c"
  defines "sqlConfig \<equiv> sqlConfigOf X cfg"
  defines "namespaces \<equiv>
    map (\<lambda>ns. NewNamespaceConfig (CurrentClusterName (ClusterMetadata cfg)) ns False) (Namespaces c)"
  defines "schemaRuns \<equiv> Ephemeral c \<or> IsNotExist (Stat X (DatabaseFilePath c))"
  defines "result \<equiv> fst (NewServer X opts)"
  assumes "NewDefaultConfig X = Inr c0"
  shows "(schemaRuns \<and> SetupSchema X sqlConfig = Some cause \<longrightarrow>
            result = Inl (Errorf ''error setting up schema: '' cause) \<and>
            fatalWith result ''error setting up schema: '' cause) \<and>
         ((schemaRuns \<longrightarrow> SetupSchema X sqlConfig = None) \<and>
          CreateNamespaces X sqlConfig namespaces = Some cause \<longrightarrow>
            result = Inl (Errorf ''error creating namespaces: '' cause) \<and>
            fatalWith result ''error creating namespaces: '' cause) \<and>
         ((schemaRuns \<longrightarrow> SetupSchema X sqlConfig = None) \<and>
          CreateNamespaces X sqlConfig namespaces = None \<and>
          GetAuthorizerFromConfig X (Authorization (Global cfg)) = Inl cause \<longrightarrow>
            result = Inl (Errorf ''unable to instantiate authorizer: '' cause) \<and>
            fatalWith result ''unable to instantiate authorizer: '' cause) \<and>
         ((schemaRuns \<longrightarrow> SetupSchema X sqlConfig = None) \<and>
          CreateNamespaces X sqlConfig namespaces = None \<and>
          GetAuthorizerFromConfig X (Authorization (Global cfg)) = Inr authorizer \<and>
          GetClaimMapperFromConfig X (Authorization (Global cfg)) (Logger c) = Inl cause \<longrightarrow>
            result = Inl (Errorf ''unable to instantiate claim mapper: '' cause) \<and>
            fatalWith result ''unable to instantiate claim mapper: '' cause)"
proof -
  have r: "result =
     (case fst (applyMigrations X c sqlConfig) of
        Some err \<Rightarrow> Inl err
      | None \<Rightarrow>
         (case fst (preCreateNamespaces X c cfg sqlConfig) of
            Some err \<Rightarrow> Inl err
          | None \<Rightarrow>
             (case GetAuthorizerFromConfig X (Authorization (Global cfg)) of
                Inl err \<Rightarrow> Inl (Errorf ''unable to instantiate authorizer: '' err)
              | Inr authorizer \<Rightarrow>
                 (case GetClaimMapperFromConfig X (Authorization (Global cfg)) (Logger c) of
                    Inl err \<Rightarrow> Inl (Errorf ''unable to instantiate claim mapper: '' err)
                  | Inr claimMapper \<Rightarrow>
                     Inr \<lparr>internal = temporal_NewServer
                            ([temporal_WithConfig cfg,
                              temporal_ForServices Services,
                              temporal_WithLogger (Logger c),
                              temporal_WithAuthorizer authorizer,
                              temporal_WithClaimMapper (\<lambda>cfg. claimMapper),
                              temporal_WithDynamicConfigClient NewNoopClient]
                             @ (case InterruptOn c of
                                  Some interruptOn \<Rightarrow> [interruptOn]
                                | None \<Rightarrow> [])),
                          frontendHostPort = PublicClient_HostPort (PublicClient cfg),
                          config = c\<rparr>))))"
    unfolding result_def c_def cfg_def sqlConfig_def
    by (simp add: fst_NewServer [OF assms(7)] Let_def)
  have m: "fst (applyMigrations X c sqlConfig) =
     (if schemaRuns then map_option (Errorf ''error setting up schema: '') (SetupSchema X sqlConfig)
      else None)"
    unfolding schemaRuns_def by (rule fst_applyMigrations)
  have n: "fst (preCreateNamespaces X c cfg sqlConfig) =
     map_option (Errorf ''error creating namespaces: '') (CreateNamespaces X sqlConfig namespaces)"
    unfolding namespaces_def by (rule fst_preCreateNamespaces)
  have schema: "result = Inl (Errorf ''error setting up schema: '' cause)"
    if "schemaRuns" "SetupSchema X sqlConfig = Some cause"
    using that by (simp add: r m)
  have ok: "fst (applyMigrations X c sqlConfig) = None"
    if "schemaRuns \<longrightarrow> SetupSchema X sqlConfig = None"
    using that by (simp add: m)
  have ns: "result = Inl (Errorf ''error creating namespaces: '' cause)"
    if "schemaRuns \<longrightarrow> SetupSchema X sqlConfig = None"
      "CreateNamespaces X sqlConfig namespaces = Some cause"
    using that(2) by (simp add: r ok [OF that(1)] n)
  have au: "result = Inl (Errorf ''unable to instantiate authorizer: '' cause)"
    if "schemaRuns \<longrightarrow> SetupSchema X sqlConfig = None"
      "CreateNamespaces X sqlConfig namespaces = None"
      "GetAuthorizerFromConfig X (Authorization (Global cfg)) = Inl cause"
    using that(2,3) by (simp add: r ok [OF that(1)] n)
  have cm: "result = Inl (Errorf ''unable to instantiate claim mapper: '' cause)"
    if "schemaRuns \<longrightarrow> SetupSchema X sqlConfig = None"
      "CreateNamespaces X sqlConfig namespaces = None"
      "GetAuthorizerFromConfig X (Authorization (Global cfg)) = Inr authorizer"
      "GetClaimMapperFromConfig X (Authorization (Global cfg)) (Logger c) = Inl cause"
    using that(2,3,4) by (simp add: r ok [OF that(1)] n)
  have f: "fatalWith (Inl (Errorf step cause)) step cause" for step
    by (simp add: fatalWith_def)
  show ?thesis
    using schema ns au cm f by metis
qed

theorem failures_are_fatal_and_identified_witness:
  "NewDefaultConfig sampleExternals = Inr sampleConfig \<and>
   fst (NewServer schemaFailsExternals []) =
     Inl (Errorf ''error setting up schema: '' (ErrorString ''disk full'')) \<and>
   fst (NewServer namespacesFailExternals []) =
     Inl (Errorf ''error creating namespaces: '' (ErrorString ''locked'')) \<and>
   fst (NewServer authorizerFailsExternals []) =
     Inl (Errorf ''unable to instantiate authorizer: '' (ErrorString ''unknown authorizer'')) \<and>
   fst (NewServer claimMapperFailsExternals []) =
     Inl (Errorf ''unable to instantiate claim mapper: '' (ErrorString ''unknown claim mapper'')) \<and>
   fatalWith (fst (NewServer schemaFailsExternals [])) ''error setting up schema: ''
     (ErrorString ''disk full'') \<and>
   Error (Errorf ''error setting up schema: '' (ErrorString ''disk full'')) =
     ''error setting up schema: disk full''"
  using failures_are_fatal_and_identified
      [where X = schemaFailsExternals and ?c0.0 = sampleConfig and opts = "[]"
         and cause = "ErrorString ''disk full''"]
    failures_are_fatal_and_identified
      [where X = namespacesFailExternals and ?c0.0 = sampleConfig and opts = "[]"
         and cause = "ErrorString ''locked''"]
    failures_are_fatal_and_identified
      [where X = authorizerFailsExternals and ?c0.0 = sampleConfig and opts = "[]"
         and cause = "ErrorString ''unknown authorizer''"]
    failures_are_fatal_and_identified
      [where X = claimMapperFailsExternals and ?c0.0 = sampleConfig and opts = "[]"
         and cause = "ErrorString ''unknown claim mapper''" and authorizer = "AuthorizerRef 0"]
  by (simp add: sample_defs fatalWith_def)

section \<open>Option combinators\<close>



text \<open>
  Claim C5. After every sequence of documented combinators, applied to any
  configuration and so to the default one, the configuration is in exactly one
  persistence mode: the one that the last persistence combinator asked for, or the
  initial one. The database file path means something in the file-backed mode only:
  the combinators carry the meaningful part of a configuration to the meaningful part of
  the result, so a path left in an ephemeral configuration never comes back; the schema
  bootstrap reads flag and path through the mode only, and looks a file up in the
  file-backed mode alone; and where the conversion reads the meaningful part only, the
  calls and the result of \<^verbatim>\<open>NewServer\<close> do not depend on such a path.
\<close>

theorem persistence_mode_respected:
  fixes X c c' a b ds sqlConfig
  defines "opts \<equiv> map combinator ds"
  shows "persistenceMode (applyOptions c opts) = foldl requestedMode (persistenceMode c) ds \<and>
         (meaningful c = meaningful c' \<longrightarrow>
            meaningful (applyOptions c opts) = meaningful (applyOptions c' opts)) \<and>
         filter isStat (snd (applyMigrations X a sqlConfig)) =
           (case persistenceMode a of InMemory \<Rightarrow> [] | FileBacked path \<Rightarrow> [CallStat path]) \<and>
         (persistenceMode a = persistenceMode b \<longrightarrow>
            applyMigrations X a sqlConfig = applyMigrations X b sqlConfig) \<and>
         ((\<forall>a b. meaningful a = meaningful b \<longrightarrow> Convert X a = Convert X b) \<and>
          meaningful c = meaningful c' \<longrightarrow>
            snd (NewServer (X\<lparr>NewDefaultConfig := Inr c\<rparr>) opts) =
              snd (NewServer (X\<lparr>NewDefaultConfig := Inr c'\<rparr>) opts) \<and>
            map_sum id built (fst (NewServer (X\<lparr>NewDefaultConfig := Inr c\<rparr>) opts)) =
              map_sum id built (fst (NewServer (X\<lparr>NewDefaultConfig := Inr c'\<rparr>) opts)))"
proof -
  have mode: "persistenceMode (applyOptions c opts) = foldl requestedMode (persistenceMode c) ds"
    unfolding opts_def by (rule persistenceMode_documented)
  have cong: "meaningful (applyOptions c opts) = meaningful (applyOptions c' opts)"
    if "meaningful c = meaningful c'"
    using that unfolding opts_def by (rule meaningful_documented_cong)
  have stat: "filter isStat (snd (applyMigrations X a sqlConfig)) =
      (case persistenceMode a of InMemory \<Rightarrow> [] | FileBacked path \<Rightarrow> [CallStat path])"
    by (simp add: snd_applyMigrations persistenceMode_def)
  have boot: "applyMigrations X a sqlConfig = applyMigrations X b sqlConfig"
    if "persistenceMode a = persistenceMode b"
    using that by (rule applyMigrations_mode)
  have run: "snd (NewServer (X\<lparr>NewDefaultConfig := Inr c\<rparr>) opts) =
               snd (NewServer (X\<lparr>NewDefaultConfig := Inr c'\<rparr>) opts) \<and>
             map_sum id built (fst (NewServer (X\<lparr>NewDefaultConfig := Inr c\<rparr>) opts)) =
               map_sum id built (fst (NewServer (X\<lparr>NewDefaultConfig := Inr c'\<rparr>) opts))"
    if conv: "\<forall>a b. meaningful a = meaningful b \<longrightarrow> Convert X a = Convert X b"
      and same: "meaningful c = meaningful c'"
  proof -
    have m: "meaningful (applyOptions c opts) = meaningful (applyOptions c' opts)"
      using same by (rule cong)
    with conv have cv: "Convert X (applyOptions c opts) = Convert X (applyOptions c' opts)"
      by blast
    have l: "NewServer (X\<lparr>NewDefaultConfig := Inr c\<rparr>) opts =
             NewServer (X\<lparr>NewDefaultConfig := Inr (applyOptions c opts)\<rparr>) []"
      using NewServer_from_default [of "X\<lparr>NewDefaultConfig := Inr c\<rparr>" c opts] by simp
    have r: "NewServer (X\<lparr>NewDefaultConfig := Inr c'\<rparr>) opts =
             NewServer (X\<lparr>NewDefaultConfig := Inr (applyOptions c' opts)\<rparr>) []"
      using NewServer_from_default [of "X\<lparr>NewDefaultConfig := Inr c'\<rparr>" c' opts] by simp
    show ?thesis
      unfolding l r using m cv by (rule NewServer_meaningful_cong)
  qed
  show ?thesis
    using mode cong stat boot run by blast
qed

theorem persistence_mode_respected_witness:
  "persistenceMode
     (applyOptions sampleConfig
        (map combinator [doc_WithPersistenceDisabled, doc_WithDatabaseFilePath ''x.db''])) =
     FileBacked ''x.db'' \<and>
   persistenceMode
     (applyOptions sampleConfig
        (map combinator [doc_WithDatabaseFilePath ''x.db'', doc_WithPersistenceDisabled])) =
     InMemory \<and>
   meaningful (ephemeralConfig ''one.db'') = meaningful (ephemeralConfig ''two.db'') \<and>
   snd (NewServer (sampleExternals\<lparr>Convert := pathConvert,
                                   NewDefaultConfig := Inr (ephemeralConfig ''one.db'')\<rparr>)
          (map combinator [doc_WithNamespaces [''a'']])) =
     snd (NewServer (sampleExternals\<lparr>Convert := pathConvert,
                                     NewDefaultConfig := Inr (ephemeralConfig ''two.db'')\<rparr>)
            (map combinator [doc_WithNamespaces [''a'']])) \<and>
   filter isStat (snd (applyMigrations sampleExternals (ephemeralConfig ''one.db'') None)) = [] \<and>
   filter isStat (snd (applyMigrations sampleExternals sampleConfig None)) = [CallStat ''default.db'']"
proof -
  let ?X = "sampleExternals\<lparr>Convert := pathConvert\<rparr>"
  have cX: "Convert ?X = pathConvert"
    by simp
  have conv': "\<forall>a b. meaningful a = meaningful b \<longrightarrow> pathConvert a = pathConvert b"
    by (auto simp add: meaningful_def persistenceMode_def pathConvert_def split: if_splits)
  have conv: "\<forall>a b. meaningful a = meaningful b \<longrightarrow> Convert ?X a = Convert ?X b"
    unfolding cX by (rule conv')
  have same: "meaningful (ephemeralConfig ''one.db'') = meaningful (ephemeralConfig ''two.db'')"
    by (simp add: meaningful_def persistenceMode_def ephemeralConfig_def)
  note one = persistence_mode_respected
    [of sampleConfig "[doc_WithPersistenceDisabled, doc_WithDatabaseFilePath ''x.db'']"
        sampleConfig sampleExternals "ephemeralConfig ''one.db''" None sampleConfig]
  note two = persistence_mode_respected
    [of sampleConfig "[doc_WithDatabaseFilePath ''x.db'', doc_WithPersistenceDisabled]"
        sampleConfig sampleExternals sampleConfig None sampleConfig]
  note three = persistence_mode_respected
    [of "ephemeralConfig ''one.db''" "[doc_WithNamespaces [''a'']]" "ephemeralConfig ''two.db''"
        ?X sampleConfig None sampleConfig]
  have m1: "persistenceMode (applyOptions sampleConfig
        (map combinator [doc_WithPersistenceDisabled, doc_WithDatabaseFilePath ''x.db''])) =
      FileBacked ''x.db''"
    using one [THEN conjunct1] by simp
  have m2: "persistenceMode (applyOptions sampleConfig
        (map combinator [doc_WithDatabaseFilePath ''x.db'', doc_WithPersistenceDisabled])) = InMemory"
    using two [THEN conjunct1] by simp
  have s1: "filter isStat (snd (applyMigrations sampleExternals (ephemeralConfig ''one.db'') None)) = []"
    using one [THEN conjunct2, THEN conjunct2, THEN conjunct1]
    by (simp add: persistenceMode_def ephemeralConfig_def)
  have s2: "filter isStat (snd (applyMigrations sampleExternals sampleConfig None)) =
      [CallStat ''default.db'']"
    using two [THEN conjunct2, THEN conjunct2, THEN conjunct1]
    by (simp add: persistenceMode_def sampleConfig_def)
  have run: "snd (NewServer (?X\<lparr>NewDefaultConfig := Inr (ephemeralConfig ''one.db'')\<rparr>)
                 (map combinator [doc_WithNamespaces [''a'']])) =
             snd (NewServer (?X\<lparr>NewDefaultConfig := Inr (ephemeralConfig ''two.db'')\<rparr>)
                 (map combinator [doc_WithNamespaces [''a'']]))"
    by (rule three [THEN conjunct2, THEN conjunct2, THEN conjunct2, THEN conjunct2, rule_format,
          OF conjI, OF conv same, THEN conjunct1])
  show ?thesis
    by (intro conjI m1 m2 same run s1 s2)
qed

text \<open>
  Claim C8. \<^verbatim>\<open>WithNamespaces\<close> is cumulative: it appends its arguments to the namespace
  list that is there and changes nothing else, so \<^verbatim>\<open>WithNamespaces("a")\<close> followed by
  \<^verbatim>\<open>WithNamespaces("b")\<close> on an empty namespace list gives the list of a and b, in
  this order.
\<close>

theorem WithNamespaces_appends:
  "apply_option (WithNamespaces namespaces) c = c\<lparr>Namespaces := Namespaces c @ namespaces\<rparr> \<and>
   Namespaces (applyOptions c [WithNamespaces namespaces, WithNamespaces namespaces']) =
     Namespaces c @ namespaces @ namespaces' \<and>
   Namespaces (applyOptions (c\<lparr>Namespaces := []\<rparr>) [WithNamespaces [''a''], WithNamespaces [''b'']]) =
     [''a'', ''b'']"
  by (simp add: option_defs)

section \<open>Client construction from the facade\<close>

text \<open>
  Claim C2. For every options value that the caller supplies, the options that
  \<^verbatim>\<open>NewClientWithOptions\<close> passes to the client constructor have the frontend address
  of the facade as \<open>HostPort\<close> and connection options that are built anew, with nothing
  taken from the caller's; whatever the caller puts into these two fields makes no
  difference. Every other field, such as the namespace and the interceptors, is passed
  on unchanged.
\<close>

theorem client_options_overridden:
  fixes client_NewClient :: "'a Options_scheme \<Rightarrow> 'r" and options :: "'a Options_scheme"
    and now s ctx
  defines "passed \<equiv> NewClientWithOptions (\<lambda>options. options) now s ctx options"
  shows "NewClientWithOptions client_NewClient now s ctx options = client_NewClient passed \<and>
         HostPort passed = frontendHostPort s \<and>
         ConnectionOptions passed =
           \<lparr>TLS = None, Authority = [], DisableHealthCheck = False,
            HealthCheckAttemptTimeout = 0,
            HealthCheckTimeout = timeoutFromContext now ctx Minute\<rparr> \<and>
         Namespace passed = Namespace options \<and>
         Interceptors passed = Interceptors options \<and>
         Options.more passed = Options.more options \<and>
         NewClientWithOptions client_NewClient now s ctx
             (options\<lparr>HostPort := hostPort, ConnectionOptions := connectionOptions\<rparr>) =
           NewClientWithOptions client_NewClient now s ctx options"
  unfolding passed_def by (simp add: passed_options)

text \<open>
  Claim C3. The health-check timeout that \<^verbatim>\<open>NewClientWithOptions\<close> sets is one minute
  when the context has no deadline. When the context has a deadline, it is the time that
  remains until the deadline, as \<^verbatim>\<open>deadline.Sub(time.Now())\<close> gives it: the difference
  of the two instants whenever a duration can hold it. For a deadline that is at most
  five seconds away the timeout is at most five seconds.
\<close>

theorem health_check_timeout_from_deadline:
  fixes options :: "'a Options_scheme" and now s ctx
  defines "timeout \<equiv>
    HealthCheckTimeout (ConnectionOptions (NewClientWithOptions (\<lambda>options. options) now s ctx options))"
  shows "(Deadline ctx = None \<longrightarrow> timeout = Minute \<and> Minute = 60 * 1000000000) \<and>
         (Deadline ctx = Some deadline \<longrightarrow>
            timeout = Time_Sub deadline now \<and>
            (minDuration \<le> deadline - now \<and> deadline - now \<le> maxDuration \<longrightarrow>
               timeout = deadline - now) \<and>
            (deadline \<le> now + 5 * Second \<longrightarrow> timeout \<le> 5 * Second))"
proof -
  have t: "timeout = timeoutFromContext now ctx Minute"
    unfolding timeout_def by (simp add: passed_options)
  have five: "Time_Sub deadline now \<le> 5 * Second" if "deadline \<le> now + 5 * Second"
    using that
    by (intro Time_Sub_upper)
       (simp_all add: Second_def Millisecond_def Microsecond_def Nanosecond_def minDuration_def)
  show ?thesis
    using five
    by (auto simp add: t timeoutFromContext_def Time_Sub_exact Minute_def Second_def
        Millisecond_def Microsecond_def Nanosecond_def)
qed

theorem health_check_timeout_from_deadline_witness:
  "HealthCheckTimeout (ConnectionOptions
      (NewClientWithOptions (\<lambda>options. options) 1000000000 sampleServer \<lparr>Deadline = None\<rparr>
         \<lparr>HostPort = ''example.com:1'', Namespace = ''default'',
          ConnectionOptions = \<lparr>TLS = None, Authority = [], DisableHealthCheck = True,
                               HealthCheckAttemptTimeout = 0, HealthCheckTimeout = 7\<rparr>,
          Interceptors = []\<rparr>)) = 60000000000 \<and>
   HealthCheckTimeout (ConnectionOptions
      (NewClientWithOptions (\<lambda>options. options) 1000000000 sampleServer \<lparr>Deadline = Some 5000000000\<rparr>
         \<lparr>HostPort = ''example.com:1'', Namespace = ''default'',
          ConnectionOptions = \<lparr>TLS = None, Authority = [], DisableHealthCheck = True,
                               HealthCheckAttemptTimeout = 0, HealthCheckTimeout = 7\<rparr>,
          Interceptors = []\<rparr>)) = 4000000000 \<and>
   (4000000000 :: int) \<le> 5 * Second"
  using health_check_timeout_from_deadline
      [of "\<lparr>Deadline = None\<rparr>" 1000000000 sampleServer
          "\<lparr>HostPort = ''example.com:1'', Namespace = ''default'',
            ConnectionOptions = \<lparr>TLS = None, Authority = [], DisableHealthCheck = True,
                                 HealthCheckAttemptTimeout = 0, HealthCheckTimeout = 7\<rparr>,
            Interceptors = []\<rparr>" 0]
    health_check_timeout_from_deadline
      [of "\<lparr>Deadline = Some 5000000000\<rparr>" 1000000000 sampleServer
          "\<lparr>HostPort = ''example.com:1'', Namespace = ''default'',
            ConnectionOptions = \<lparr>TLS = None, Authority = [], DisableHealthCheck = True,
                                 HealthCheckAttemptTimeout = 0, HealthCheckTimeout = 7\<rparr>,
            Interceptors = []\<rparr>" 5000000000]
  by (simp add: minDuration_def maxDuration_def Minute_def Second_def Millisecond_def
      Microsecond_def Nanosecond_def)

text \<open>
  Claim C10. For a context whose deadline has passed when the clock is read,
  \<^verbatim>\<open>NewClientWithOptions\<close> sets the health-check timeout to the difference between the
  deadline and the current time, which is zero or negative. The default does not enter
  the result for any context that has a deadline, so the timeout is never the
  one-minute default because the deadline has expired.
\<close>

theorem expired_deadline_gives_nonpositive_timeout:
  fixes options :: "'a Options_scheme"
  assumes "Deadline ctx = Some deadline" and "deadline \<le> now"
  shows "timeoutFromContext now ctx defaultTimeout = Time_Sub deadline now \<and>
         HealthCheckTimeout (ConnectionOptions
            (NewClientWithOptions (\<lambda>options. options) now s ctx options)) = Time_Sub deadline now \<and>
         Time_Sub deadline now \<le> 0 \<and>
         Time_Sub deadline now \<noteq> Minute \<and>
         (minDuration \<le> deadline - now \<longrightarrow> Time_Sub deadline now = deadline - now)"
proof -
  have le: "Time_Sub deadline now \<le> 0"
    using assms(2) by (intro Time_Sub_upper) (simp_all add: minDuration_def)
  have "0 < Minute"
    by (simp add: Minute_def Second_def Millisecond_def Microsecond_def Nanosecond_def)
  with le have ne: "Time_Sub deadline now \<noteq> Minute"
    by simp
  have exact: "Time_Sub deadline now = deadline - now" if "minDuration \<le> deadline - now"
    using that assms(2) by (intro Time_Sub_exact) (simp_all add: maxDuration_def)
  show ?thesis
    using le ne exact assms(1) by (simp add: passed_options timeoutFromContext_def)
qed

theorem expired_deadline_gives_nonpositive_timeout_witness:
  "Deadline \<lparr>Deadline = Some 5000000000\<rparr> = Some 5000000000 \<and>
   (5000000000 :: int) \<le> 7000000000 \<and>
   timeoutFromContext 7000000000 \<lparr>Deadline = Some 5000000000\<rparr> Minute = - 2000000000 \<and>
   HealthCheckTimeout (ConnectionOptions
      (NewClientWithOptions (\<lambda>options. options) 7000000000 sampleServer \<lparr>Deadline = Some 5000000000\<rparr>
         \<lparr>HostPort = [], Namespace = ''default'',
          ConnectionOptions = \<lparr>TLS = None, Authority = [], DisableHealthCheck = False,
                               HealthCheckAttemptTimeout = 0, HealthCheckTimeout = 0\<rparr>,
          Interceptors = []\<rparr>)) = - 2000000000"
  using expired_deadline_gives_nonpositive_timeout
      [of "\<lparr>Deadline = Some 5000000000\<rparr>" 5000000000 7000000000 Minute sampleServer
          "\<lparr>HostPort = [], Namespace = ''default'',
            ConnectionOptions = \<lparr>TLS = None, Authority = [], DisableHealthCheck = False,
                                 HealthCheckAttemptTimeout = 0, HealthCheckTimeout = 0\<rparr>,
            Interceptors = []\<rparr>"]
  by (simp add: minDuration_def)

end
